theory Spec2Isabelle
  imports Complex_Main
begin

section \<open>Python values used by the backend\<close>

text \<open>
  The two source files are \<^verbatim>\<open>backend/gemini_service.py\<close> (the helper
  \<^verbatim>\<open>generate_smart_response\<close>) and \<^verbatim>\<open>backend/app.py\<close> (the route
  \<^verbatim>\<open>query\<close>). An exception is a value; a call that may raise returns
  \<open>exn + 'a\<close> with \<open>Inl\<close> for the exception. Only subclasses of Python's
  \<^verbatim>\<open>Exception\<close> are modelled, which is what every \<^verbatim>\<open>except Exception\<close>
  of the source catches. A string is a list of characters read as code points below 256.
  What the two files print is left out.
\<close>

datatype exn = Exception string | KeyError string | AttributeError string

text \<open>\<^verbatim>\<open>str(e)\<close>: the message, and for a KeyError the quoted key.\<close>

fun str_exn :: "exn \<Rightarrow> string" where
  "str_exn (Exception msg) = msg"
| "str_exn (KeyError k) = [CHR 0x27] @ k @ [CHR 0x27]"
| "str_exn (AttributeError msg) = msg"

text \<open>\<^verbatim>\<open>str.isspace\<close> on the code points below 256, and \<^verbatim>\<open>str.strip()\<close>.\<close>

definition isspace :: "char \<Rightarrow> bool" where
  "isspace c =
     (let n = (of_char c :: nat)
      in (9 \<le> n \<and> n \<le> 13) \<or> (28 \<le> n \<and> n \<le> 32) \<or> n = 133 \<or> n = 160)"

definition strip :: "string \<Rightarrow> string" where
  "strip s = rev (dropWhile isspace (rev (dropWhile isspace s)))"

text \<open>The decimal text of a non-negative integer, as an f-string renders \<^verbatim>\<open>{i}\<close>.\<close>

fun str_nat :: "nat \<Rightarrow> string" where
  "str_nat n =
     (if n < 10 then [char_of (48 + n)]
      else str_nat (n div 10) @ [char_of (48 + n mod 10)])"

declare str_nat.simps [simp del]

subsection \<open>Dictionaries\<close>

text \<open>
  A source snippet is a dictionary with the keys \<^verbatim>\<open>dataset\<close>, \<^verbatim>\<open>chunk\<close>,
  \<^verbatim>\<open>details\<close> and \<^verbatim>\<open>relevance\<close>; a field is \<open>None\<close> when the key is absent.
  The relevance is a string or a number in the source; its type is the parameter \<open>'r\<close>
  and Python's \<^verbatim>\<open>str\<close> on it is a parameter of the functions that format it.
\<close>

record 'r source =
  dataset :: "string option"
  chunk :: "string option"
  details :: "string option"
  relevance :: "'r option"

text \<open>
  The request body, the retriever's result, the helper's result and the response are all
  Python dictionaries. One record holds every key the two files read or write; a field is
  \<open>None\<close> when the dictionary has no such key.
\<close>

record 'r dict =
  question :: "string option"
  top_k :: "int option"
  use_gemini :: "bool option"
  answer :: "string option"
  confidence :: "real option"
  sources :: "'r source list option"
  search_results_count :: "int option"
  num_results :: "int option"
  ai_enhanced :: "bool option"
  general_guidance :: "bool option"
  fallback :: "bool option"

definition empty_dict :: "'r dict" where
  "empty_dict =
     \<lparr>question = None, top_k = None, use_gemini = None, answer = None, confidence = None,
      sources = None, search_results_count = None, num_results = None, ai_enhanced = None,
      general_guidance = None, fallback = None\<rparr>"

text \<open>\<^verbatim>\<open>d[key]\<close> raises KeyError on an absent key; \<^verbatim>\<open>d.get(key, default)\<close> does not.\<close>

definition subscript :: "string \<Rightarrow> 'a option \<Rightarrow> exn + 'a" where
  "subscript key v = (case v of None \<Rightarrow> Inl (KeyError key) | Some x \<Rightarrow> Inr x)"

definition dict_get :: "'a option \<Rightarrow> 'a \<Rightarrow> 'a" where
  "dict_get v dflt = (case v of None \<Rightarrow> dflt | Some x \<Rightarrow> x)"

subsection \<open>The external collaborators\<close>

text \<open>
  The generative model and the retriever are not part of the repository: they are taken as
  functions that return or raise. \<open>response_text\<close> is the property \<^verbatim>\<open>response.text\<close>,
  which may raise as well.
\<close>

datatype GenerateContentResponse = Response (response_text: "exn + string")

datatype GenerativeModel =
  GenerativeModel (generate_content: "string \<Rightarrow> exn + GenerateContentResponse")

datatype 'r IntelligentQASystem =
  QASystem (answer_question: "string \<Rightarrow> int \<Rightarrow> exn + 'r dict")

text \<open>
  The module globals after start-up. \<open>new_IntelligentQASystem\<close> is what the constructor
  call \<^verbatim>\<open>IntelligentQASystem()\<close> does in this process.
\<close>

record 'r process =
  GEMINI_AVAILABLE :: bool
  GEMINI_READY :: bool
  model :: "GenerativeModel option"
  new_IntelligentQASystem :: "exn + 'r IntelligentQASystem"

section \<open>gemini\_service.py\<close>

text \<open>
  Lines 6 to 20: the module configures the client and builds the model inside a
  \<^verbatim>\<open>try\<close>; any exception is caught there and leaves \<^verbatim>\<open>GEMINI_READY = False\<close>,
  \<^verbatim>\<open>model = None\<close>. The argument is the outcome of the configuration.
\<close>

definition gemini_service_init :: "exn + GenerativeModel \<Rightarrow> bool \<times> GenerativeModel option" where
  "gemini_service_init setup =
     (case setup of Inr m \<Rightarrow> (True, Some m) | Inl e \<Rightarrow> (False, None))"

text \<open>The fixed texts of the prompt: the f-string of line 44 around \<^verbatim>\<open>{user_question}\<close>.\<close>

definition context_head :: string where
  "context_head =
     ''You are **SaarthiAI**, an expert agriculture assistant and guide helping users with questions about Indian agriculture, crop production, soil health, and general agricultural practices.\<newline>'' @
     ''\<newline>'' @
     ''Your role is to:\<newline>'' @
     ''- Answer questions about Indian agriculture using available data\<newline>'' @
     ''- Guide users with general agricultural knowledge and best practices\<newline>'' @
     ''- Provide helpful advice on farming, crops, soil management, and agricultural techniques\<newline>'' @
     ''- Act as a knowledgeable mentor and guide for farmers and agriculture enthusiasts\<newline>'' @
     ''\<newline>'' @
     ''User Question: ''"

definition context_tail :: string where
  "context_tail =
     ''\<newline>'' @
     ''\<newline>'' @
     ''Retrieved Data from Knowledge Base:\<newline>''"

text \<open>Line 67.\<close>

definition no_match_note :: string where
  "no_match_note =
     ''\<newline>'' @
     ''Note: No specific dataset matches found for this question. Please provide general guidance based on your agricultural expertise.\<newline>''"

text \<open>Lines 70 to 90: what follows \<^verbatim>\<open>{context}\<close> in the prompt.\<close>

definition prompt_tail :: string where
  "prompt_tail =
     ''\<newline>'' @
     ''\<newline>'' @
     ''Based on the information above (if available), provide a helpful, clear, and conversational answer to the user's question. \<newline>'' @
     ''\<newline>'' @
     ''Guidelines:\<newline>'' @
     ''1. **Always introduce yourself as SaarthiAI** at the beginning if this is a general question\<newline>'' @
     ''2. Answer naturally and conversationally, acting as a helpful guide\<newline>'' @
     ''3. If specific data is provided, use it and cite it appropriately\<newline>'' @
     ''4. If no specific data is available, use your agricultural expertise to provide general guidance\<newline>'' @
     ''5. For general agriculture questions, provide comprehensive guidance including:\<newline>'' @
     ''   - Best practices and recommendations\<newline>'' @
     ''   - Agricultural techniques and methods\<newline>'' @
     ''   - Crop management advice\<newline>'' @
     ''   - Soil health improvement tips\<newline>'' @
     ''   - Common agricultural knowledge\<newline>'' @
     ''6. Be encouraging and supportive, like a mentor\<newline>'' @
     ''7. If applicable, mention that you can also provide specific data queries if they have questions about particular regions or crops\<newline>'' @
     ''8. Include relevant numbers and statistics when data is available\<newline>'' @
     ''9. If multiple sources provide data, synthesize them intelligently\<newline>'' @
     ''\<newline>'' @
     ''Your Response:''"

text \<open>Line 111.\<close>

definition canned_answer :: string where
  "canned_answer =
     ''I'm **SaarthiAI**, your agriculture assistant. I apologize, but I'm having trouble processing your question right now. Please try asking about:\<newline>'' @
     ''\<newline>'' @
     ''- Crop production data\<newline>'' @
     ''- Soil health information\<newline>'' @
     ''- General agriculture guidance\<newline>'' @
     ''- Farming best practices''"

text \<open>
  Line 41: \<^verbatim>\<open>retrieved_data and retrieved_data.get('sources') and len(...) > 0\<close>,
  read as a truth value. A dictionary is true when it has a key, a list when it has an
  element.
\<close>

definition has_data :: "'r dict \<Rightarrow> bool" where
  "has_data retrieved_data =
     (retrieved_data \<noteq> empty_dict \<and>
      (case sources retrieved_data of
         None \<Rightarrow> False
       | Some ss \<Rightarrow> ss \<noteq> [] \<and> 0 < length ss))"

text \<open>
  Lines 60 to 65, the body of the loop: the text appended to \<open>context\<close> for the
  \<open>i\<close>-th source. The keys \<^verbatim>\<open>dataset\<close>, \<^verbatim>\<open>chunk\<close> and \<^verbatim>\<open>relevance\<close> are
  subscripted, so an absent one raises KeyError; \<^verbatim>\<open>details\<close> is tested first.
\<close>

definition add_source :: "('r \<Rightarrow> string) \<Rightarrow> nat \<Rightarrow> 'r source \<Rightarrow> string \<Rightarrow> exn + string" where
  "add_source str i source context =
     (let context1 = context @ ''\<newline>Source '' @ str_nat i @ '':\<newline>'' in
      case subscript ''dataset'' (dataset source) of
        Inl e \<Rightarrow> Inl e
      | Inr d \<Rightarrow>
          let context2 = context1 @ ''Dataset: '' @ d @ ''\<newline>'' in
          (case subscript ''chunk'' (chunk source) of
             Inl e \<Rightarrow> Inl e
           | Inr c \<Rightarrow>
               let context3 = context2 @ ''Information: '' @ c @ ''\<newline>'';
                   context4 = (case details source of
                                 None \<Rightarrow> context3
                               | Some x \<Rightarrow> context3 @ ''Details: '' @ x @ ''\<newline>'')
               in (case subscript ''relevance'' (relevance source) of
                     Inl e \<Rightarrow> Inl e
                   | Inr r \<Rightarrow> Inr (context4 @ ''Relevance: '' @ str r @ ''\<newline>''))))"

text \<open>Line 59: the loop over \<^verbatim>\<open>enumerate(..., 1)\<close>, the index counting up.\<close>

fun add_sources :: "('r \<Rightarrow> string) \<Rightarrow> nat \<Rightarrow> 'r source list \<Rightarrow> string \<Rightarrow> exn + string" where
  "add_sources str i [] context = Inr context"
| "add_sources str i (source # rest) context =
     (case add_source str i source context of
        Inl e \<Rightarrow> Inl e
      | Inr context' \<Rightarrow> add_sources str (Suc i) rest context')"

text \<open>Lines 44 to 67: the context, with the first three sources or the note.\<close>

definition build_context :: "('r \<Rightarrow> string) \<Rightarrow> string \<Rightarrow> 'r dict \<Rightarrow> exn + string" where
  "build_context str user_question retrieved_data =
     (let context = context_head @ user_question @ context_tail in
      case sources retrieved_data of
        None \<Rightarrow> Inr (context @ no_match_note)
      | Some ss \<Rightarrow>
          if ss \<noteq> [] \<and> 0 < length ss then add_sources str 1 (take 3 ss) context
          else Inr (context @ no_match_note))"

text \<open>Lines 70 to 90.\<close>

definition build_prompt :: "('r \<Rightarrow> string) \<Rightarrow> string \<Rightarrow> 'r dict \<Rightarrow> exn + string" where
  "build_prompt str user_question retrieved_data =
     (case build_context str user_question retrieved_data of
        Inl e \<Rightarrow> Inl e
      | Inr context \<Rightarrow> Inr (context @ prompt_tail))"

text \<open>
  Lines 94 to 96, the body of the \<^verbatim>\<open>try\<close>: the call, the \<^verbatim>\<open>text\<close> property and
  the strip. Calling a method of \<^verbatim>\<open>None\<close> raises AttributeError.
\<close>

definition try_generate :: "GenerativeModel option \<Rightarrow> string \<Rightarrow> exn + string" where
  "try_generate mdl prompt =
     (case mdl of
        None \<Rightarrow> Inl (AttributeError ''generate_content'')
      | Some m \<Rightarrow>
          (case generate_content m prompt of
             Inl e \<Rightarrow> Inl e
           | Inr response \<Rightarrow>
               (case response_text response of
                  Inl e \<Rightarrow> Inl e
                | Inr t \<Rightarrow> Inr (strip t))))"

text \<open>
  Lines 22 to 118: the guard, the prompt (built outside the \<^verbatim>\<open>try\<close>, so a KeyError
  of a source leaves the function), the call, and the two dictionaries returned.
\<close>

definition generate_smart_response ::
    "('r \<Rightarrow> string) \<Rightarrow> 'r process \<Rightarrow> string \<Rightarrow> 'r dict \<Rightarrow> exn + 'r dict" where
  "generate_smart_response str p user_question retrieved_data =
     (if \<not> GEMINI_READY p \<or> model p = None then Inl (Exception ''Gemini not available'')
      else
        case build_prompt str user_question retrieved_data of
          Inl e \<Rightarrow> Inl e
        | Inr prompt \<Rightarrow>
            (case try_generate (model p) prompt of
               Inr enhanced_answer \<Rightarrow>
                 Inr (empty_dict
                   \<lparr>answer := Some enhanced_answer,
                    confidence := Some (if has_data retrieved_data
                                        then dict_get (confidence retrieved_data) 0 else 0.5),
                    sources := Some (dict_get (sources retrieved_data) []),
                    ai_enhanced := Some True,
                    general_guidance := Some (\<not> has_data retrieved_data)\<rparr>)
             | Inl e \<Rightarrow>
                 let fallback_answer0 = dict_get (answer retrieved_data) [];
                     fallback_answer =
                       (if fallback_answer0 = [] \<or> strip fallback_answer0 = []
                        then canned_answer else fallback_answer0)
                 in Inr (empty_dict
                   \<lparr>answer := Some fallback_answer,
                    confidence := Some (dict_get (confidence retrieved_data) 0),
                    sources := Some (dict_get (sources retrieved_data) []),
                    ai_enhanced := Some False,
                    fallback := Some True\<rparr>)))"

section \<open>app.py\<close>

text \<open>
  Lines 18 to 28: \<^verbatim>\<open>GEMINI_AVAILABLE\<close> is true when importing the module
  \<^verbatim>\<open>gemini_service\<close> raises nothing. The first argument is the outcome of the
  import machinery before the module's body runs (\<open>None\<close> when the module is found);
  the body itself never raises, whatever the configuration did.
\<close>

definition app_init ::
    "exn option \<Rightarrow> exn + GenerativeModel \<Rightarrow> exn + 'r IntelligentQASystem \<Rightarrow> 'r process" where
  "app_init import_error setup ctor =
     (case import_error of
        Some e \<Rightarrow>
          \<lparr>GEMINI_AVAILABLE = False, GEMINI_READY = False, model = None,
           new_IntelligentQASystem = ctor\<rparr>
      | None \<Rightarrow>
          \<lparr>GEMINI_AVAILABLE = True, GEMINI_READY = fst (gemini_service_init setup),
           model = snd (gemini_service_init setup), new_IntelligentQASystem = ctor\<rparr>)"

text \<open>
  Lines 52 to 63: the global \<^verbatim>\<open>qa_system\<close> is the state; it is filled at the
  first call that succeeds.
\<close>

definition init_qa_system ::
    "'r process \<Rightarrow> 'r IntelligentQASystem option
       \<Rightarrow> (exn + 'r IntelligentQASystem) \<times> 'r IntelligentQASystem option" where
  "init_qa_system p qa_system =
     (case qa_system of
        None \<Rightarrow>
          (case new_IntelligentQASystem p of
             Inl e \<Rightarrow> (Inl e, None)
           | Inr qa \<Rightarrow> (Inr qa, Some qa))
      | Some qa \<Rightarrow> (Inr qa, Some qa))"

text \<open>
  What \<^verbatim>\<open>jsonify\<close> is given: a response dictionary, or the \<^verbatim>\<open>error\<close> message of
  the two error bodies (the traceback text of the second is left out).
\<close>

datatype 'r body = Envelope "'r dict" | Error string

text \<open>Lines 118 to 126 and 128 to 135: the two dictionaries built from the result alone.\<close>

definition result_response :: "string \<Rightarrow> 'r dict \<Rightarrow> bool option \<Rightarrow> exn + 'r dict" where
  "result_response q result fb =
     (case subscript ''answer'' (answer result) of
        Inl e \<Rightarrow> Inl e
      | Inr a \<Rightarrow>
          (case subscript ''confidence'' (confidence result) of
             Inl e \<Rightarrow> Inl e
           | Inr c \<Rightarrow>
               Inr (empty_dict
                 \<lparr>question := Some q,
                  answer := Some a,
                  confidence := Some c,
                  sources := Some (dict_get (sources result) []),
                  num_results := Some (dict_get (search_results_count result) 0),
                  ai_enhanced := Some False,
                  fallback := fb\<rparr>)))"

text \<open>Lines 107 to 116: the dictionary built from the helper's result.\<close>

definition enhanced_response :: "string \<Rightarrow> 'r dict \<Rightarrow> 'r dict \<Rightarrow> exn + 'r dict" where
  "enhanced_response q result enhanced_result =
     (case subscript ''answer'' (answer enhanced_result) of
        Inl e \<Rightarrow> Inl e
      | Inr a \<Rightarrow>
          (case subscript ''confidence'' (confidence enhanced_result) of
             Inl e \<Rightarrow> Inl e
           | Inr c \<Rightarrow>
               Inr (empty_dict
                 \<lparr>question := Some q,
                  answer := Some a,
                  confidence := Some c,
                  sources := Some (dict_get (sources enhanced_result)
                                     (dict_get (sources result) [])),
                  num_results := Some (dict_get (search_results_count result) 0),
                  ai_enhanced := Some (dict_get (ai_enhanced enhanced_result) False),
                  general_guidance :=
                    Some (dict_get (general_guidance enhanced_result) False)\<rparr>)))"

text \<open>
  Lines 92 to 139. The request is what \<^verbatim>\<open>request.get_json()\<close> returned: \<open>None\<close>
  or a dictionary. The result is the body, the status and the new \<^verbatim>\<open>qa_system\<close>.
\<close>

definition query ::
    "('r \<Rightarrow> string) \<Rightarrow> 'r process \<Rightarrow> 'r IntelligentQASystem option \<Rightarrow> 'r dict option
       \<Rightarrow> ('r body \<times> nat) \<times> 'r IntelligentQASystem option" where
  "query str p qa_system request =
     (case init_qa_system p qa_system of
        (Inl e, qa_system') \<Rightarrow> ((Error (str_exn e), 500), qa_system')
      | (Inr qa, qa_system') \<Rightarrow>
          (case request of
             None \<Rightarrow> ((Error ''Missing question parameter'', 400), qa_system')
           | Some data \<Rightarrow>
               if data = empty_dict \<or> question data = None
               then ((Error ''Missing question parameter'', 400), qa_system')
               else
                 (case subscript ''question'' (question data) of
                    Inl e \<Rightarrow> ((Error (str_exn e), 500), qa_system')
                  | Inr q \<Rightarrow>
                      (case answer_question qa q (dict_get (top_k data) 10) of
                         Inl e \<Rightarrow> ((Error (str_exn e), 500), qa_system')
                       | Inr result \<Rightarrow>
                           let response =
                             (if GEMINI_AVAILABLE p \<and> dict_get (use_gemini data) True
                              then
                                (case generate_smart_response str p q result of
                                   Inl e \<Rightarrow> result_response q result (Some True)
                                 | Inr enhanced_result \<Rightarrow>
                                     (case enhanced_response q result enhanced_result of
                                        Inl e \<Rightarrow> result_response q result (Some True)
                                      | Inr r \<Rightarrow> Inr r))
                              else result_response q result None)
                           in (case response of
                                 Inl e \<Rightarrow> ((Error (str_exn e), 500), qa_system')
                               | Inr r \<Rightarrow> ((Envelope r, 200), qa_system'))))))"

section \<open>The rendering of a source in the specification\<close>

text \<open>
  Section 3 of the specification: a source snippet has a dataset, a chunk and a
  relevance, and optional details.
\<close>

definition well_formed_source :: "'r source \<Rightarrow> bool" where
  "well_formed_source s = (dataset s \<noteq> None \<and> chunk s \<noteq> None \<and> relevance s \<noteq> None)"

text \<open>
  Section 4.1, step 1 of the specification: a source is rendered as its number, dataset
  name, chunk text, details when present, and relevance. This is the closed form that the
  loop of \<open>add_sources\<close> is compared with.
\<close>

definition rendered_source :: "('r \<Rightarrow> string) \<Rightarrow> nat \<Rightarrow> 'r source \<Rightarrow> string" where
  "rendered_source str i s =
     ''\<newline>Source '' @ str_nat i @ '':\<newline>'' @
     ''Dataset: '' @ dict_get (dataset s) [] @ ''\<newline>'' @
     ''Information: '' @ dict_get (chunk s) [] @ ''\<newline>'' @
     (case details s of None \<Rightarrow> [] | Some x \<Rightarrow> ''Details: '' @ x @ ''\<newline>'') @
     ''Relevance: '' @ (case relevance s of None \<Rightarrow> [] | Some x \<Rightarrow> str x) @ ''\<newline>''"

section \<open>Example inputs\<close>

text \<open>
  Concrete inputs at which the theorems below are evaluated. The relevance of a source is
  a natural number here and \<open>str_nat\<close> renders it.
\<close>

definition sandy_soil_question :: string where
  "sandy_soil_question = ''What crops grow best in sandy soil?''"

definition sandy_soil_request :: "nat dict" where
  "sandy_soil_request = empty_dict\<lparr>question := Some sandy_soil_question\<rparr>"

definition crop_source :: "nat source" where
  "crop_source =
     \<lparr>dataset = Some ''crop_production'', chunk = Some ''Groundnut yields well in sandy loam'',
      details = None, relevance = Some 87\<rparr>"

definition soil_source :: "nat source" where
  "soil_source =
     \<lparr>dataset = Some ''soil_health'', chunk = Some ''Sandy soil drains quickly'',
      details = Some ''pH 6.5'', relevance = Some 74\<rparr>"

definition nameless_source :: "nat source" where
  "nameless_source =
     \<lparr>dataset = None, chunk = Some ''Sandy soil drains quickly'', details = None,
      relevance = Some 74\<rparr>"

definition two_source_result :: "nat dict" where
  "two_source_result =
     empty_dict\<lparr>answer := Some ''Groundnut and millet suit sandy soil.'',
       confidence := Some 0.82, sources := Some [crop_source, soil_source],
       search_results_count := Some 2\<rparr>"

definition five_source_result :: "nat dict" where
  "five_source_result =
     empty_dict\<lparr>answer := Some ''Groundnut and millet suit sandy soil.'',
       confidence := Some 0.82,
       sources := Some [crop_source, soil_source, crop_source, soil_source, crop_source],
       search_results_count := Some 5\<rparr>"

definition no_source_result :: "nat dict" where
  "no_source_result =
     empty_dict\<lparr>answer := Some [], confidence := Some 0, sources := Some [],
       search_results_count := Some 0\<rparr>"

definition blank_answer_result :: "nat dict" where
  "blank_answer_result =
     empty_dict\<lparr>answer := Some '' '', confidence := Some 0, sources := Some [],
       search_results_count := Some 0\<rparr>"

definition nameless_source_result :: "nat dict" where
  "nameless_source_result =
     empty_dict\<lparr>answer := Some ''Sandy soil drains quickly.'', confidence := Some 0.4,
       sources := Some [nameless_source], search_results_count := Some 1\<rparr>"

text \<open>
  A model that answers, a model whose call raises, a retriever that returns a given
  result, and three processes: started with a working model, with a model whose calls
  fail, and with a configuration that failed at start-up.
\<close>

definition healthy_model :: GenerativeModel where
  "healthy_model =
     GenerativeModel (\<lambda>prompt. Inr (Response (Inr '' I am SaarthiAI. Try groundnut. '')))"

definition failing_model :: GenerativeModel where
  "failing_model = GenerativeModel (\<lambda>prompt. Inl (Exception ''quota exceeded''))"

definition retriever_of :: "nat dict \<Rightarrow> nat IntelligentQASystem" where
  "retriever_of result = QASystem (\<lambda>question top_k. Inr result)"

definition healthy_process :: "nat dict \<Rightarrow> nat process" where
  "healthy_process result = app_init None (Inr healthy_model) (Inr (retriever_of result))"

definition failing_process :: "nat dict \<Rightarrow> nat process" where
  "failing_process result = app_init None (Inr failing_model) (Inr (retriever_of result))"

definition uninitialised_process :: "nat dict \<Rightarrow> nat process" where
  "uninitialised_process result =
     app_init None (Inl (Exception ''API key not valid'')) (Inr (retriever_of result))"

text \<open>The prompts that the example results give, written out.\<close>

definition two_source_prompt :: string where
  "two_source_prompt =
     context_head @ sandy_soil_question @ context_tail @
     ''\<newline>Source 1:\<newline>'' @
     ''Dataset: crop_production\<newline>'' @
     ''Information: Groundnut yields well in sandy loam\<newline>'' @
     ''Relevance: 87\<newline>'' @
     ''\<newline>Source 2:\<newline>'' @
     ''Dataset: soil_health\<newline>'' @
     ''Information: Sandy soil drains quickly\<newline>'' @
     ''Details: pH 6.5\<newline>'' @
     ''Relevance: 74\<newline>'' @
     prompt_tail"

definition no_source_prompt :: string where
  "no_source_prompt =
     context_head @ sandy_soil_question @ context_tail @ no_match_note @ prompt_tail"

definition five_source_prompt :: string where
  "five_source_prompt =
     context_head @ sandy_soil_question @ context_tail @
     ''\<newline>Source 1:\<newline>'' @
     ''Dataset: crop_production\<newline>'' @
     ''Information: Groundnut yields well in sandy loam\<newline>'' @
     ''Relevance: 87\<newline>'' @
     ''\<newline>Source 2:\<newline>'' @
     ''Dataset: soil_health\<newline>'' @
     ''Information: Sandy soil drains quickly\<newline>'' @
     ''Details: pH 6.5\<newline>'' @
     ''Relevance: 74\<newline>'' @
     ''\<newline>Source 3:\<newline>'' @
     ''Dataset: crop_production\<newline>'' @
     ''Information: Groundnut yields well in sandy loam\<newline>'' @
     ''Relevance: 87\<newline>'' @
     prompt_tail"

section \<open>Auxiliary facts\<close>

subsection \<open>Strings and dictionaries\<close>

lemma sources_empty_dict: "sources (empty_dict :: 'r dict) = None"
  by (simp add: empty_dict_def)

lemma question_empty_dict: "question (empty_dict :: 'r dict) = None"
  by (simp add: empty_dict_def)

text \<open>\<open>has_data\<close> says that there is a source, no more.\<close>

lemma has_data_iff: "has_data r = (\<exists>ss. sources r = Some ss \<and> ss \<noteq> [])"
proof (cases "sources r")
  case None
  then show ?thesis by (simp add: has_data_def)
next
  case (Some ss)
  then have "r \<noteq> empty_dict" using sources_empty_dict[where 'r='a] by auto
  with Some show ?thesis by (simp add: has_data_def)
qed

lemma not_has_data: "dict_get (sources r) [] = [] \<Longrightarrow> \<not> has_data r"
  by (auto simp: has_data_iff dict_get_def)

lemma has_data_Some: "sources r = Some ss \<Longrightarrow> ss \<noteq> [] \<Longrightarrow> has_data r"
  by (simp add: has_data_iff)

lemma dropWhile_all: "(dropWhile P xs = []) = list_all P xs"
  by (induction xs) auto

text \<open>Stripping leaves nothing exactly when every character is whitespace.\<close>

lemma strip_Nil_iff: "(strip s = []) = list_all isspace s"
proof
  assume "strip s = []"
  then have a: "dropWhile isspace (rev (dropWhile isspace s)) = []"
    by (simp add: strip_def)
  show "list_all isspace s"
  proof (rule ccontr)
    assume "\<not> list_all isspace s"
    then have ne: "dropWhile isspace s \<noteq> []" using dropWhile_all[of isspace s] by blast
    then have "\<not> isspace (hd (dropWhile isspace s))" by (rule hd_dropWhile)
    moreover have "hd (dropWhile isspace s) \<in> set (rev (dropWhile isspace s))"
      using ne by simp
    moreover from a have "\<forall>x\<in>set (rev (dropWhile isspace s)). isspace x"
      using dropWhile_all[of isspace "rev (dropWhile isspace s)"] by (simp add: list_all_iff)
    ultimately show False by blast
  qed
next
  assume "list_all isspace s"
  then have d: "dropWhile isspace s = []" using dropWhile_all[of isspace s] by blast
  show "strip s = []" by (simp only: strip_def d, simp)
qed

lemma canned_answer_not_Nil: "canned_answer \<noteq> []"
  by (simp add: canned_answer_def)

subsection \<open>The three outcomes of the helper\<close>

lemma gsr_not_ready:
  "\<not> GEMINI_READY p \<or> model p = None \<Longrightarrow>
   generate_smart_response str p q r = Inl (Exception ''Gemini not available'')"
  by (auto simp: generate_smart_response_def)

lemma gsr_failure:
  assumes "GEMINI_READY p" "model p = Some m" "build_prompt str q r = Inr prompt"
    "try_generate (Some m) prompt = Inl e"
  shows "generate_smart_response str p q r =
     Inr (empty_dict
       \<lparr>answer := Some (if list_all isspace (dict_get (answer r) [])
                        then canned_answer else dict_get (answer r) []),
        confidence := Some (dict_get (confidence r) 0),
        sources := Some (dict_get (sources r) []),
        ai_enhanced := Some False,
        fallback := Some True\<rparr>)"
proof -
  have "(dict_get (answer r) [] = [] \<or> strip (dict_get (answer r) []) = []) =
        list_all isspace (dict_get (answer r) [])"
    by (auto simp: strip_Nil_iff)
  with assms show ?thesis
    by (simp add: generate_smart_response_def Let_def)
qed

lemma gsr_success:
  assumes "GEMINI_READY p" "model p = Some m" "build_prompt str q r = Inr prompt"
    "try_generate (Some m) prompt = Inr text"
  shows "generate_smart_response str p q r =
     Inr (empty_dict
       \<lparr>answer := Some text,
        confidence := Some (if has_data r then dict_get (confidence r) 0 else 0.5),
        sources := Some (dict_get (sources r) []),
        ai_enhanced := Some True,
        general_guidance := Some (\<not> has_data r)\<rparr>)"
  using assms by (simp add: generate_smart_response_def)

lemma gsr_confidence:
  assumes "generate_smart_response str p q r = Inr er"
    "\<And>c0. confidence r = Some c0 \<Longrightarrow> 0 \<le> c0 \<and> c0 \<le> 1"
  shows "\<exists>c. confidence er = Some c \<and> 0 \<le> c \<and> c \<le> 1"
proof -
  have "0 \<le> dict_get (confidence r) 0 \<and> dict_get (confidence r) 0 \<le> 1"
    using assms(2) by (cases "confidence r") (auto simp: dict_get_def)
  moreover from assms(1)
  have "confidence er = Some (dict_get (confidence r) 0) \<or> confidence er = Some (1 / 2)"
    by (auto simp: generate_smart_response_def Let_def split: if_splits sum.splits)
  ultimately show ?thesis by auto
qed

subsection \<open>The loop over the sources\<close>

text \<open>
  On well-formed sources the loop raises nothing and appends the rendered sources in
  order, numbered from its start index.
\<close>

lemma add_source_well_formed:
  "well_formed_source s \<Longrightarrow> add_source str i s ctx = Inr (ctx @ rendered_source str i s)"
  by (auto simp: well_formed_source_def add_source_def rendered_source_def subscript_def
      dict_get_def Let_def split: option.splits)

lemma add_sources_well_formed:
  "list_all well_formed_source xs \<Longrightarrow>
   add_sources str i xs ctx =
     Inr (ctx @ concat (map (\<lambda>(j, s). rendered_source str j s) (List.enumerate i xs)))"
proof (induction xs arbitrary: i ctx)
  case Nil
  then show ?case by simp
next
  case (Cons x xs)
  then show ?case by (simp add: add_source_well_formed)
qed

lemma build_context_well_formed:
  assumes "list_all well_formed_source (take 3 (dict_get (sources r) []))"
  shows "build_context str q r =
     Inr (context_head @ q @ context_tail @
          (if dict_get (sources r) [] = [] then no_match_note
           else concat (map (\<lambda>(j, s). rendered_source str j s)
                  (List.enumerate 1 (take 3 (dict_get (sources r) []))))))"
proof (cases "sources r")
  case None
  then show ?thesis by (simp add: build_context_def dict_get_def)
next
  case (Some ss)
  show ?thesis
  proof (cases "ss = []")
    case True
    with Some show ?thesis by (simp add: build_context_def dict_get_def)
  next
    case False
    from assms Some have "list_all well_formed_source (take 3 ss)" by (simp add: dict_get_def)
    from add_sources_well_formed[OF this, of str 1 "context_head @ q @ context_tail"] Some False
    show ?thesis by (simp add: build_context_def dict_get_def)
  qed
qed

lemma build_prompt_take3:
  "sources r = Some ss \<Longrightarrow>
   build_prompt str q r = build_prompt str q (r\<lparr>sources := Some (take 3 ss)\<rparr>)"
  by (cases ss) (simp_all add: build_prompt_def build_context_def)

lemma build_prompt_no_source:
  "dict_get (sources r) [] = [] \<Longrightarrow>
   build_prompt str q r = Inr (context_head @ q @ context_tail @ no_match_note @ prompt_tail)"
  by (cases "sources r") (simp_all add: build_prompt_def build_context_def dict_get_def)

subsection \<open>The route\<close>

lemma init_qa_system_fresh:
  "new_IntelligentQASystem p = Inr qa \<Longrightarrow> init_qa_system p None = (Inr qa, Some qa)"
  by (simp add: init_qa_system_def)

lemma query_init_error:
  "init_qa_system p s = (Inl e, s') \<Longrightarrow> query str p s request = ((Error (str_exn e), 500), s')"
  by (simp add: query_def)

lemma query_no_question:
  "init_qa_system p s = (Inr qa, s') \<Longrightarrow> question data = None \<Longrightarrow>
   query str p s (Some data) = ((Error ''Missing question parameter'', 400), s')"
  by (simp add: query_def)

lemma query_retriever_error:
  assumes "init_qa_system p s = (Inr qa, s')" "question data = Some q"
    "answer_question qa q (dict_get (top_k data) 10) = Inl e"
  shows "query str p s (Some data) = ((Error (str_exn e), 500), s')"
proof -
  have "data \<noteq> empty_dict" using assms(2) question_empty_dict[where 'r='a] by auto
  with assms show ?thesis
    by (simp add: query_def subscript_def)
qed

text \<open>Once the retriever has returned, the response is decided by the helper alone.\<close>

lemma query_answered:
  assumes "init_qa_system p s = (Inr qa, s')" "question data = Some q"
    "answer_question qa q (dict_get (top_k data) 10) = Inr r"
  shows "query str p s (Some data) =
     (case (if GEMINI_AVAILABLE p \<and> dict_get (use_gemini data) True
             then (case generate_smart_response str p q r of
                     Inl e \<Rightarrow> result_response q r (Some True)
                   | Inr er \<Rightarrow>
                       (case enhanced_response q r er of
                          Inl e \<Rightarrow> result_response q r (Some True)
                        | Inr x \<Rightarrow> Inr x))
             else result_response q r None) of
         Inl e \<Rightarrow> ((Error (str_exn e), 500), s')
       | Inr x \<Rightarrow> ((Envelope x, 200), s'))"
proof -
  have "data \<noteq> empty_dict" using assms(2) question_empty_dict[where 'r='a] by auto
  with assms show ?thesis
    by (simp add: query_def subscript_def Let_def)
qed

lemma result_response_present:
  "answer r = Some a \<Longrightarrow> confidence r = Some c \<Longrightarrow>
   result_response q r fb =
     Inr (empty_dict
       \<lparr>question := Some q, answer := Some a, confidence := Some c,
        sources := Some (dict_get (sources r) []),
        num_results := Some (dict_get (search_results_count r) 0),
        ai_enhanced := Some False, fallback := fb\<rparr>)"
  by (simp add: result_response_def subscript_def)

lemma result_response_fallback:
  "result_response q r fb =
     (case result_response q r None of Inl e \<Rightarrow> Inl e | Inr d \<Rightarrow> Inr (d\<lparr>fallback := fb\<rparr>))"
  by (simp add: result_response_def subscript_def split: option.splits)

lemma result_response_confidence:
  "result_response q r fb = Inr d \<Longrightarrow> confidence d = confidence r \<and> confidence r \<noteq> None"
  by (auto simp: result_response_def subscript_def split: option.splits)

lemma enhanced_response_confidence:
  "enhanced_response q r er = Inr d \<Longrightarrow> confidence d = confidence er"
  by (auto simp: enhanced_response_def subscript_def split: option.splits)

lemma query_envelope_confidence:
  assumes "init_qa_system p s = (Inr qa, s')" "question data = Some q"
    "answer_question qa q (dict_get (top_k data) 10) = Inr r"
    "query str p s (Some data) = ((Envelope d, status), s'')"
  shows "(confidence d = confidence r \<and> confidence r \<noteq> None) \<or>
         (\<exists>er. generate_smart_response str p q r = Inr er \<and> confidence d = confidence er)"
proof -
  let ?resp = "(if GEMINI_AVAILABLE p \<and> dict_get (use_gemini data) True
             then (case generate_smart_response str p q r of
                     Inl e \<Rightarrow> result_response q r (Some True)
                   | Inr er \<Rightarrow>
                       (case enhanced_response q r er of
                          Inl e \<Rightarrow> result_response q r (Some True)
                        | Inr x \<Rightarrow> Inr x))
             else result_response q r None)"
  from assms(4) have "?resp = Inr d"
    unfolding query_answered[OF assms(1-3)] by (auto split: sum.splits)
  then show ?thesis
    using result_response_confidence[of q r _ d] enhanced_response_confidence[of q r _ d]
    by (auto split: if_splits sum.splits)
qed

text \<open>
  Once the retriever has returned a result with an answer and a confidence, the route
  answers with status 200 whatever the helper does.
\<close>

lemma query_status_200:
  assumes "init_qa_system p s = (Inr qa, s')" "question data = Some q"
    "answer_question qa q (dict_get (top_k data) 10) = Inr r"
    "answer r = Some a" "confidence r = Some c"
  shows "\<exists>d. query str p s (Some data) = ((Envelope d, 200), s')"
  unfolding query_answered[OF assms(1-3)]
  by (auto simp: result_response_present[OF assms(4,5)] split: sum.splits)

text \<open>
  A configuration that fails at start-up leaves \<open>GEMINI_AVAILABLE\<close> true: the module
  catches the exception itself, so the import in \<^verbatim>\<open>app.py\<close> succeeds.
\<close>

lemma app_init_setup_failure:
  "GEMINI_AVAILABLE (app_init None (Inl e) ctor)"
  "\<not> GEMINI_READY (app_init None (Inl e) ctor)"
  "model (app_init None (Inl e) ctor) = None"
  by (simp_all add: app_init_def gemini_service_init_def)

subsection \<open>The example inputs, evaluated\<close>

lemma str_nat_Suc_0: "str_nat (Suc 0) = ''1''" by code_simp
lemma str_nat_Suc_Suc_0: "str_nat (Suc (Suc 0)) = ''2''" by code_simp
lemma str_nat_Suc_Suc_Suc_0: "str_nat (Suc (Suc (Suc 0))) = ''3''" by code_simp
lemma str_nat_87: "str_nat 87 = ''87''" by code_simp
lemma str_nat_74: "str_nat 74 = ''74''" by code_simp
lemma str_nat_2: "str_nat 2 = ''2''" by code_simp

lemma sandy_soil_request_simps:
  "question sandy_soil_request = Some sandy_soil_question"
  "top_k sandy_soil_request = None" "use_gemini sandy_soil_request = None"
  by (simp_all add: sandy_soil_request_def empty_dict_def)

lemma two_source_result_simps:
  "answer two_source_result = Some ''Groundnut and millet suit sandy soil.''"
  "confidence two_source_result = Some 0.82"
  "sources two_source_result = Some [crop_source, soil_source]"
  "search_results_count two_source_result = Some 2"
  by (simp_all add: two_source_result_def empty_dict_def)

lemma failing_process_simps:
  "GEMINI_AVAILABLE (failing_process r)" "GEMINI_READY (failing_process r)"
  "model (failing_process r) = Some failing_model"
  "new_IntelligentQASystem (failing_process r) = Inr (retriever_of r)"
  by (simp_all add: failing_process_def app_init_def gemini_service_init_def)

lemma healthy_process_simps:
  "GEMINI_AVAILABLE (healthy_process r)" "GEMINI_READY (healthy_process r)"
  "model (healthy_process r) = Some healthy_model"
  "new_IntelligentQASystem (healthy_process r) = Inr (retriever_of r)"
  by (simp_all add: healthy_process_def app_init_def gemini_service_init_def)

lemma uninitialised_process_simps:
  "GEMINI_AVAILABLE (uninitialised_process r)" "\<not> GEMINI_READY (uninitialised_process r)"
  "model (uninitialised_process r) = None"
  "new_IntelligentQASystem (uninitialised_process r) = Inr (retriever_of r)"
  by (simp_all add: uninitialised_process_def app_init_def gemini_service_init_def)

lemma try_generate_failing:
  "try_generate (Some failing_model) prompt = Inl (Exception ''quota exceeded'')"
  by (simp add: try_generate_def failing_model_def)

lemma try_generate_healthy:
  "try_generate (Some healthy_model) prompt = Inr ''I am SaarthiAI. Try groundnut.''"
  by (simp add: try_generate_def healthy_model_def strip_def isspace_def)

lemma answer_question_retriever_of: "answer_question (retriever_of r) q k = Inr r"
  by (simp add: retriever_of_def)

lemma build_prompt_two_source:
  "build_prompt str_nat sandy_soil_question two_source_result = Inr two_source_prompt"
  by (simp add: build_prompt_def build_context_def two_source_result_def empty_dict_def
      crop_source_def soil_source_def add_source_def subscript_def two_source_prompt_def
      str_nat_Suc_0 str_nat_Suc_Suc_0 str_nat_87 str_nat_74)

lemma build_prompt_five_source:
  "build_prompt str_nat sandy_soil_question five_source_result = Inr five_source_prompt"
  by (simp add: build_prompt_def build_context_def five_source_result_def empty_dict_def
      crop_source_def soil_source_def add_source_def subscript_def five_source_prompt_def
      str_nat_Suc_0 str_nat_Suc_Suc_0 str_nat_Suc_Suc_Suc_0 str_nat_87 str_nat_74)

lemma build_prompt_nameless:
  "build_prompt str_nat sandy_soil_question nameless_source_result = Inl (KeyError ''dataset'')"
  by (simp add: build_prompt_def build_context_def nameless_source_result_def empty_dict_def
      nameless_source_def add_source_def subscript_def)

lemma gsr_two_source_healthy:
  "generate_smart_response str_nat (healthy_process two_source_result) sandy_soil_question
       two_source_result =
     Inr \<lparr>question = None, top_k = None, use_gemini = None,
          answer = Some ''I am SaarthiAI. Try groundnut.'', confidence = Some 0.82,
          sources = Some [crop_source, soil_source], search_results_count = None,
          num_results = None, ai_enhanced = Some True, general_guidance = Some False,
          fallback = None\<rparr>"
proof -
  have "has_data two_source_result"
    by (rule has_data_Some[OF two_source_result_simps(3)]) simp
  with gsr_success[OF healthy_process_simps(2) healthy_process_simps(3)
      build_prompt_two_source try_generate_healthy]
  show ?thesis by (simp add: two_source_result_simps dict_get_def empty_dict_def)
qed

lemma gsr_two_source_failing:
  "generate_smart_response str_nat (failing_process two_source_result) sandy_soil_question
       two_source_result =
     Inr \<lparr>question = None, top_k = None, use_gemini = None,
          answer = Some ''Groundnut and millet suit sandy soil.'', confidence = Some 0.82,
          sources = Some [crop_source, soil_source], search_results_count = None,
          num_results = None, ai_enhanced = Some False, general_guidance = None,
          fallback = Some True\<rparr>"
  using gsr_failure[OF failing_process_simps(2) failing_process_simps(3)
      build_prompt_two_source try_generate_failing]
  by (simp add: two_source_result_simps dict_get_def empty_dict_def isspace_def)

lemma gsr_nameless_healthy:
  "generate_smart_response str_nat (healthy_process nameless_source_result)
     sandy_soil_question nameless_source_result = Inl (KeyError ''dataset'')"
  by (simp add: generate_smart_response_def healthy_process_simps build_prompt_nameless)

lemma query_two_source_healthy:
  "query str_nat (healthy_process two_source_result) None (Some sandy_soil_request) =
     ((Envelope
        \<lparr>question = Some sandy_soil_question, top_k = None, use_gemini = None,
         answer = Some ''I am SaarthiAI. Try groundnut.'', confidence = Some 0.82,
         sources = Some [crop_source, soil_source], search_results_count = None,
         num_results = Some 2, ai_enhanced = Some True, general_guidance = Some False,
         fallback = None\<rparr>, 200),
      Some (retriever_of two_source_result))"
proof -
  have i: "init_qa_system (healthy_process two_source_result) None =
      (Inr (retriever_of two_source_result), Some (retriever_of two_source_result))"
    by (rule init_qa_system_fresh) (rule healthy_process_simps)
  show ?thesis
    using query_answered[OF i sandy_soil_request_simps(1) answer_question_retriever_of,
        of str_nat]
    by (simp add: gsr_two_source_healthy healthy_process_simps sandy_soil_request_simps
        dict_get_def enhanced_response_def subscript_def two_source_result_simps empty_dict_def)
qed

lemma query_two_source_failing:
  "query str_nat (failing_process two_source_result) None (Some sandy_soil_request) =
     ((Envelope
        \<lparr>question = Some sandy_soil_question, top_k = None, use_gemini = None,
         answer = Some ''Groundnut and millet suit sandy soil.'', confidence = Some 0.82,
         sources = Some [crop_source, soil_source], search_results_count = None,
         num_results = Some 2, ai_enhanced = Some False, general_guidance = Some False,
         fallback = None\<rparr>, 200),
      Some (retriever_of two_source_result))"
proof -
  have i: "init_qa_system (failing_process two_source_result) None =
      (Inr (retriever_of two_source_result), Some (retriever_of two_source_result))"
    by (rule init_qa_system_fresh) (rule failing_process_simps)
  show ?thesis
    using query_answered[OF i sandy_soil_request_simps(1) answer_question_retriever_of,
        of str_nat]
    by (simp add: gsr_two_source_failing failing_process_simps sandy_soil_request_simps
        dict_get_def enhanced_response_def subscript_def two_source_result_simps empty_dict_def)
qed

section \<open>The claims\<close>

subsection \<open>C1: an error of the enhancer call stays inside the helper\<close>

text \<open>
  C1 as stated says that, when the enhancer call raises, the helper returns
  \<^verbatim>\<open>retrieval.answer\<close> whenever that is non-empty. At a retrieval whose answer is a
  single space the call of \<open>failing_model\<close> raises and the helper returns the canned
  text, not the space: line 110 also replaces an answer that is empty after
  \<^verbatim>\<open>strip()\<close>.
\<close>

theorem blank_answer_counterexample:
  "answer blank_answer_result = Some '' '' \<and>
   GEMINI_READY (failing_process blank_answer_result) \<and>
   model (failing_process blank_answer_result) = Some failing_model \<and>
   build_prompt str_nat sandy_soil_question blank_answer_result = Inr no_source_prompt \<and>
   try_generate (Some failing_model) no_source_prompt = Inl (Exception ''quota exceeded'') \<and>
   generate_smart_response str_nat (failing_process blank_answer_result) sandy_soil_question
       blank_answer_result =
     Inr (empty_dict\<lparr>answer := Some canned_answer, confidence := Some 0, sources := Some [],
            ai_enhanced := Some False, fallback := Some True\<rparr>) \<and>
   canned_answer \<noteq> '' ''"
proof -
  have s: "dict_get (sources blank_answer_result) [] = []"
    by (simp add: blank_answer_result_def empty_dict_def dict_get_def)
  have bp: "build_prompt str_nat sandy_soil_question blank_answer_result = Inr no_source_prompt"
    using build_prompt_no_source[OF s] by (simp add: no_source_prompt_def)
  have "list_all isspace (dict_get (answer blank_answer_result) [])"
    by (simp add: blank_answer_result_def empty_dict_def dict_get_def isspace_def)
  with gsr_failure[OF failing_process_simps(2) failing_process_simps(3) bp try_generate_failing]
  have "generate_smart_response str_nat (failing_process blank_answer_result)
          sandy_soil_question blank_answer_result =
        Inr (empty_dict\<lparr>answer := Some canned_answer, confidence := Some 0,
               sources := Some [], ai_enhanced := Some False, fallback := Some True\<rparr>)"
    by (simp add: blank_answer_result_def empty_dict_def dict_get_def)
  moreover have "canned_answer \<noteq> '' ''" by (simp add: canned_answer_def)
  moreover have "answer blank_answer_result = Some '' ''"
    by (simp add: blank_answer_result_def empty_dict_def)
  ultimately show ?thesis
    using bp try_generate_failing failing_process_simps by simp
qed

text \<open>
  C1, amended: for every question and every retrieval result, if the enhancer is
  initialised, the prompt was built and the call (or reading its text) raises, then
  \<open>generate_smart_response\<close> raises nothing: it returns a result with
  \<open>ai_enhanced = False\<close>, \<open>fallback = True\<close> and a non-empty answer, which is the
  retrieval's answer when that has a character that is not whitespace and the canned
  text otherwise (answer absent, empty or blank).
\<close>

theorem enhancer_error_falls_back:
  assumes "GEMINI_READY p" "model p = Some m" "build_prompt str q r = Inr prompt"
    "try_generate (Some m) prompt = Inl e"
  shows "\<exists>res a. generate_smart_response str p q r = Inr res \<and>
           ai_enhanced res = Some False \<and> fallback res = Some True \<and>
           answer res = Some a \<and> a \<noteq> [] \<and>
           a = (if list_all isspace (dict_get (answer r) [])
                then canned_answer else dict_get (answer r) [])"
proof -
  have "(if list_all isspace (dict_get (answer r) [])
         then canned_answer else dict_get (answer r) []) \<noteq> []"
    using canned_answer_not_Nil by auto
  with gsr_failure[OF assms] show ?thesis by simp
qed

text \<open>The theorem at the two-source retrieval, with the model whose call raises.\<close>

theorem enhancer_error_falls_back_witness:
  "GEMINI_READY (failing_process two_source_result) \<and>
   model (failing_process two_source_result) = Some failing_model \<and>
   build_prompt str_nat sandy_soil_question two_source_result = Inr two_source_prompt \<and>
   try_generate (Some failing_model) two_source_prompt = Inl (Exception ''quota exceeded'') \<and>
   (\<exists>res. generate_smart_response str_nat (failing_process two_source_result)
             sandy_soil_question two_source_result = Inr res \<and>
          ai_enhanced res = Some False \<and> fallback res = Some True \<and>
          answer res = Some ''Groundnut and millet suit sandy soil.'')"
proof -
  have "\<not> list_all isspace (dict_get (answer two_source_result) [])"
    by (simp add: two_source_result_def empty_dict_def dict_get_def isspace_def)
  moreover have "dict_get (answer two_source_result) [] = ''Groundnut and millet suit sandy soil.''"
    by (simp add: two_source_result_def empty_dict_def dict_get_def)
  ultimately show ?thesis
    using enhancer_error_falls_back[OF failing_process_simps(2) failing_process_simps(3)
        build_prompt_two_source try_generate_failing]
      failing_process_simps build_prompt_two_source try_generate_failing
    by auto
qed

subsection \<open>C2: a process whose enhancer failed to initialise\<close>

text \<open>
  C2 as stated says that, when the initialisation failed, the response is the one of a
  request with \<^verbatim>\<open>use_gemini = false\<close>, with no \<^verbatim>\<open>fallback\<close> key. In the process
  whose configuration raised at start-up, a request that leaves \<^verbatim>\<open>use_gemini\<close> at its
  default is answered with \<open>fallback = Some True\<close>; the same request with
  \<^verbatim>\<open>use_gemini = false\<close> has no such key.
\<close>

theorem uninitialised_enhancer_counterexample:
  "\<not> GEMINI_READY (uninitialised_process two_source_result) \<and>
   query str_nat (uninitialised_process two_source_result) None (Some sandy_soil_request) =
     ((Envelope
        \<lparr>question = Some sandy_soil_question, top_k = None, use_gemini = None,
         answer = Some ''Groundnut and millet suit sandy soil.'', confidence = Some 0.82,
         sources = Some [crop_source, soil_source], search_results_count = None,
         num_results = Some 2, ai_enhanced = Some False, general_guidance = None,
         fallback = Some True\<rparr>, 200),
      Some (retriever_of two_source_result)) \<and>
   query str_nat (uninitialised_process two_source_result) None
       (Some (sandy_soil_request\<lparr>use_gemini := Some False\<rparr>)) =
     ((Envelope
        \<lparr>question = Some sandy_soil_question, top_k = None, use_gemini = None,
         answer = Some ''Groundnut and millet suit sandy soil.'', confidence = Some 0.82,
         sources = Some [crop_source, soil_source], search_results_count = None,
         num_results = Some 2, ai_enhanced = Some False, general_guidance = None,
         fallback = None\<rparr>, 200),
      Some (retriever_of two_source_result)) \<and>
   query str_nat (uninitialised_process two_source_result) None (Some sandy_soil_request) \<noteq>
   query str_nat (uninitialised_process two_source_result) None
       (Some (sandy_soil_request\<lparr>use_gemini := Some False\<rparr>))"
proof -
  let ?p = "uninitialised_process two_source_result"
  have i: "init_qa_system ?p None =
      (Inr (retriever_of two_source_result), Some (retriever_of two_source_result))"
    by (rule init_qa_system_fresh) (rule uninitialised_process_simps)
  have g: "generate_smart_response str_nat ?p sandy_soil_question two_source_result =
      Inl (Exception ''Gemini not available'')"
    by (rule gsr_not_ready) (simp add: uninitialised_process_simps)
  have r: "result_response sandy_soil_question two_source_result fb =
      Inr \<lparr>question = Some sandy_soil_question, top_k = None, use_gemini = None,
         answer = Some ''Groundnut and millet suit sandy soil.'', confidence = Some 0.82,
         sources = Some [crop_source, soil_source], search_results_count = None,
         num_results = Some 2, ai_enhanced = Some False, general_guidance = None,
         fallback = fb\<rparr>" for fb
    by (simp add: result_response_def subscript_def dict_get_def two_source_result_def
        empty_dict_def)
  have a: "query str_nat ?p None (Some sandy_soil_request) =
     ((Envelope
        \<lparr>question = Some sandy_soil_question, top_k = None, use_gemini = None,
         answer = Some ''Groundnut and millet suit sandy soil.'', confidence = Some 0.82,
         sources = Some [crop_source, soil_source], search_results_count = None,
         num_results = Some 2, ai_enhanced = Some False, general_guidance = None,
         fallback = Some True\<rparr>, 200),
      Some (retriever_of two_source_result))"
    using query_answered[OF i sandy_soil_request_simps(1) answer_question_retriever_of,
        of str_nat]
    by (simp add: g r uninitialised_process_simps sandy_soil_request_simps dict_get_def)
  have q2: "question (sandy_soil_request\<lparr>use_gemini := Some False\<rparr>) = Some sandy_soil_question"
    by (simp add: sandy_soil_request_simps)
  have b: "query str_nat ?p None (Some (sandy_soil_request\<lparr>use_gemini := Some False\<rparr>)) =
     ((Envelope
        \<lparr>question = Some sandy_soil_question, top_k = None, use_gemini = None,
         answer = Some ''Groundnut and millet suit sandy soil.'', confidence = Some 0.82,
         sources = Some [crop_source, soil_source], search_results_count = None,
         num_results = Some 2, ai_enhanced = Some False, general_guidance = None,
         fallback = None\<rparr>, 200),
      Some (retriever_of two_source_result))"
    using query_answered[OF i q2 answer_question_retriever_of, of str_nat]
    by (simp add: r dict_get_def)
  show ?thesis using uninitialised_process_simps(2) by (simp add: a b)
qed

text \<open>
  C2, amended: in a process whose readiness flag \<open>GEMINI_READY\<close> is false, every
  request with a body is answered as the same request with \<^verbatim>\<open>use_gemini = false\<close> is,
  field by field and with the same status, except that the envelope also carries
  \<open>fallback = True\<close> when the caller did not opt out and \<open>GEMINI_AVAILABLE\<close> is true
  (the module was imported). With \<open>GEMINI_AVAILABLE\<close> false the two responses are
  identical.
\<close>

theorem uninitialised_enhancer_marks_fallback:
  assumes "\<not> GEMINI_READY p"
  shows "query str p s (Some data) =
     (case query str p s (Some (data\<lparr>use_gemini := Some False\<rparr>)) of
        ((Envelope d, status), s') \<Rightarrow>
          ((Envelope (d\<lparr>fallback :=
              (if GEMINI_AVAILABLE p \<and> dict_get (use_gemini data) True
               then Some True else None)\<rparr>), status), s')
      | ((Error msg, status), s') \<Rightarrow> ((Error msg, status), s'))"
proof (cases "init_qa_system p s")
  case (Pair iq s')
  show ?thesis
  proof (cases iq)
    case (Inl e)
    with Pair show ?thesis by (simp add: query_init_error)
  next
    case (Inr qa)
    note init = Pair[unfolded Inr]
    show ?thesis
    proof (cases "question data")
      case None
      with init show ?thesis by (simp add: query_no_question)
    next
      case (Some q)
      then have q': "question (data\<lparr>use_gemini := Some False\<rparr>) = Some q" by simp
      show ?thesis
      proof (cases "answer_question qa q (dict_get (top_k data) 10)")
        case (Inl e)
        then have "answer_question qa q (dict_get (top_k (data\<lparr>use_gemini := Some False\<rparr>)) 10) = Inl e"
          by simp
        from query_retriever_error[OF init Some Inl] query_retriever_error[OF init q' this]
        show ?thesis by simp
      next
        case (Inr r)
        then have r': "answer_question qa q (dict_get (top_k (data\<lparr>use_gemini := Some False\<rparr>)) 10) = Inr r"
          by simp
        have g: "generate_smart_response str p q r = Inl (Exception ''Gemini not available'')"
          using assms by (simp add: gsr_not_ready)
        have n: "fallback d = None" if "result_response q r None = Inr d" for d
          using that by (auto simp: result_response_def subscript_def empty_dict_def
              split: option.splits)
        show ?thesis
          unfolding query_answered[OF init Some Inr] query_answered[OF init q' r']
          using n
          by (cases "result_response q r None")
             (auto simp: g dict_get_def result_response_fallback[of q r "Some True"])
      qed
    qed
  qed
qed

text \<open>The theorem in the process whose configuration raised at start-up.\<close>

theorem uninitialised_enhancer_marks_fallback_witness:
  "\<not> GEMINI_READY (uninitialised_process two_source_result) \<and>
   GEMINI_AVAILABLE (uninitialised_process two_source_result) \<and>
   dict_get (use_gemini sandy_soil_request) True \<and>
   query str_nat (uninitialised_process two_source_result) None (Some sandy_soil_request) =
     (case query str_nat (uninitialised_process two_source_result) None
             (Some (sandy_soil_request\<lparr>use_gemini := Some False\<rparr>)) of
        ((Envelope d, status), s') \<Rightarrow> ((Envelope (d\<lparr>fallback := Some True\<rparr>), status), s')
      | ((Error msg, status), s') \<Rightarrow> ((Error msg, status), s'))"
  using uninitialised_enhancer_marks_fallback[OF uninitialised_process_simps(2),
      where r1 = two_source_result and str = str_nat and s = None
        and data = sandy_soil_request]
  by (simp add: uninitialised_process_simps sandy_soil_request_simps dict_get_def)

subsection \<open>C3: no sources and an enhancer that cannot be reached\<close>

text \<open>
  C3 as stated says that with empty sources and an unreachable enhancer the response has
  a non-empty answer and \<open>fallback = True\<close>. In the process whose configuration raised
  at start-up the helper raises at its guard (lines 36 and 37), the route builds the
  response from the retrieval alone (lines 117 to 126), and a retrieval with an empty
  answer gives a response with the empty answer.
\<close>

theorem uninitialised_empty_answer_counterexample:
  "sources no_source_result = Some [] \<and>
   \<not> GEMINI_READY (uninitialised_process no_source_result) \<and>
   generate_smart_response str_nat (uninitialised_process no_source_result)
       sandy_soil_question no_source_result = Inl (Exception ''Gemini not available'') \<and>
   query str_nat (uninitialised_process no_source_result) None (Some sandy_soil_request) =
     ((Envelope
        \<lparr>question = Some sandy_soil_question, top_k = None, use_gemini = None,
         answer = Some [], confidence = Some 0, sources = Some [],
         search_results_count = None, num_results = Some 0, ai_enhanced = Some False,
         general_guidance = None, fallback = Some True\<rparr>, 200),
      Some (retriever_of no_source_result))"
proof -
  let ?p = "uninitialised_process no_source_result"
  have i: "init_qa_system ?p None =
      (Inr (retriever_of no_source_result), Some (retriever_of no_source_result))"
    by (rule init_qa_system_fresh) (rule uninitialised_process_simps)
  have g: "generate_smart_response str_nat ?p sandy_soil_question no_source_result =
      Inl (Exception ''Gemini not available'')"
    by (rule gsr_not_ready) (simp add: uninitialised_process_simps)
  have r: "result_response sandy_soil_question no_source_result (Some True) =
      Inr \<lparr>question = Some sandy_soil_question, top_k = None, use_gemini = None,
         answer = Some [], confidence = Some 0, sources = Some [],
         search_results_count = None, num_results = Some 0, ai_enhanced = Some False,
         general_guidance = None, fallback = Some True\<rparr>"
    by (simp add: result_response_def subscript_def dict_get_def no_source_result_def
        empty_dict_def)
  have "query str_nat ?p None (Some sandy_soil_request) =
     ((Envelope
        \<lparr>question = Some sandy_soil_question, top_k = None, use_gemini = None,
         answer = Some [], confidence = Some 0, sources = Some [],
         search_results_count = None, num_results = Some 0, ai_enhanced = Some False,
         general_guidance = None, fallback = Some True\<rparr>, 200),
      Some (retriever_of no_source_result))"
    using query_answered[OF i sandy_soil_request_simps(1) answer_question_retriever_of,
        of str_nat]
    by (simp add: g r uninitialised_process_simps sandy_soil_request_simps dict_get_def)
  moreover have "sources no_source_result = Some []"
    by (simp add: no_source_result_def empty_dict_def)
  ultimately show ?thesis using g uninitialised_process_simps(2) by simp
qed

text \<open>
  C3, amended: for every retrieval result whose sources are empty (or absent), when the
  enhancer is initialised and its call fails at request time, \<open>generate_smart_response\<close>
  returns a result with a non-empty answer and \<open>fallback = True\<close>. With no sources the
  prompt is the fixed text around the question and the note.
\<close>

theorem empty_sources_call_failure:
  assumes "dict_get (sources r) [] = []" "GEMINI_READY p" "model p = Some m"
    "try_generate (Some m) (context_head @ q @ context_tail @ no_match_note @ prompt_tail) = Inl e"
  shows "\<exists>res a. generate_smart_response str p q r = Inr res \<and>
           answer res = Some a \<and> a \<noteq> [] \<and> fallback res = Some True"
proof -
  have "(if list_all isspace (dict_get (answer r) [])
         then canned_answer else dict_get (answer r) []) \<noteq> []"
    using canned_answer_not_Nil by auto
  with gsr_failure[OF assms(2,3) build_prompt_no_source[OF assms(1)] assms(4)]
  show ?thesis by simp
qed

text \<open>The theorem at the retrieval with no sources and an empty answer.\<close>

theorem empty_sources_call_failure_witness:
  "dict_get (sources no_source_result) [] = [] \<and>
   GEMINI_READY (failing_process no_source_result) \<and>
   model (failing_process no_source_result) = Some failing_model \<and>
   try_generate (Some failing_model)
       (context_head @ sandy_soil_question @ context_tail @ no_match_note @ prompt_tail) =
     Inl (Exception ''quota exceeded'') \<and>
   (\<exists>res a. generate_smart_response str_nat (failing_process no_source_result)
               sandy_soil_question no_source_result = Inr res \<and>
            answer res = Some a \<and> a \<noteq> [] \<and> fallback res = Some True)"
proof -
  have s: "dict_get (sources no_source_result) [] = []"
    by (simp add: no_source_result_def empty_dict_def dict_get_def)
  show ?thesis
    using empty_sources_call_failure[OF s failing_process_simps(2) failing_process_simps(3)
        try_generate_failing, where str = str_nat]
      s failing_process_simps try_generate_failing
    by simp
qed

subsection \<open>C4: the enhancer disabled by the caller\<close>

text \<open>
  C4: for every retrieval result with non-empty sources (and an answer and a confidence),
  a request with \<^verbatim>\<open>use_gemini = false\<close> is answered, with status 200, by an envelope
  that holds the retrieval's answer, confidence and sources unchanged and
  \<open>ai_enhanced = False\<close>; it has no \<^verbatim>\<open>general_guidance\<close> and no \<^verbatim>\<open>fallback\<close> key.
\<close>

theorem enhancer_disabled_mirrors_retrieval:
  assumes "init_qa_system p s = (Inr qa, s')" "question data = Some q"
    "use_gemini data = Some False"
    "answer_question qa q (dict_get (top_k data) 10) = Inr r"
    "answer r = Some a" "confidence r = Some c" "sources r = Some ss" "ss \<noteq> []"
  shows "query str p s (Some data) =
     ((Envelope
        \<lparr>question = Some q, top_k = None, use_gemini = None,
         answer = Some a, confidence = Some c, sources = Some ss,
         search_results_count = None,
         num_results = Some (dict_get (search_results_count r) 0),
         ai_enhanced = Some False, general_guidance = None, fallback = None\<rparr>, 200), s')"
  unfolding query_answered[OF assms(1,2,4)]
  using assms(3,7)
  by (simp add: result_response_present[OF assms(5,6)] dict_get_def empty_dict_def)

text \<open>The theorem in the process with a working model, the caller opting out.\<close>

theorem enhancer_disabled_mirrors_retrieval_witness:
  "init_qa_system (healthy_process two_source_result) None =
     (Inr (retriever_of two_source_result), Some (retriever_of two_source_result)) \<and>
   answer_question (retriever_of two_source_result) sandy_soil_question 10 =
     Inr two_source_result \<and>
   query str_nat (healthy_process two_source_result) None
       (Some (sandy_soil_request\<lparr>use_gemini := Some False\<rparr>)) =
     ((Envelope
        \<lparr>question = Some sandy_soil_question, top_k = None, use_gemini = None,
         answer = Some ''Groundnut and millet suit sandy soil.'', confidence = Some 0.82,
         sources = Some [crop_source, soil_source], search_results_count = None,
         num_results = Some 2, ai_enhanced = Some False, general_guidance = None,
         fallback = None\<rparr>, 200),
      Some (retriever_of two_source_result))"
proof -
  let ?p = "healthy_process two_source_result"
  let ?d = "sandy_soil_request\<lparr>use_gemini := Some False\<rparr>"
  have i: "init_qa_system ?p None =
      (Inr (retriever_of two_source_result), Some (retriever_of two_source_result))"
    by (rule init_qa_system_fresh) (rule healthy_process_simps)
  have q: "question ?d = Some sandy_soil_question" by (simp add: sandy_soil_request_simps)
  have u: "use_gemini ?d = Some False" by simp
  have f: "dict_get (search_results_count two_source_result) 0 = 2"
    by (simp add: two_source_result_simps dict_get_def)
  have n: "[crop_source, soil_source] \<noteq> []" by simp
  show ?thesis
    using enhancer_disabled_mirrors_retrieval[OF i q u answer_question_retriever_of
        two_source_result_simps(1) two_source_result_simps(2) two_source_result_simps(3) n,
        where str = str_nat]
      i answer_question_retriever_of[of two_source_result sandy_soil_question 10]
    by (simp add: f)
qed

subsection \<open>C5: a successful call without sources\<close>

text \<open>
  C5: whenever the enhancer call succeeds and the retrieval has no sources, the helper's
  result has confidence exactly 0.5 and \<open>general_guidance = True\<close>, and so has the
  envelope that the route builds from it.
\<close>

theorem success_without_sources:
  assumes "dict_get (sources r) [] = []" "GEMINI_READY p" "model p = Some m"
    "build_prompt str q r = Inr prompt" "try_generate (Some m) prompt = Inr text"
  shows "\<exists>res env. generate_smart_response str p q r = Inr res \<and>
           confidence res = Some 0.5 \<and> general_guidance res = Some True \<and>
           enhanced_response q r res = Inr env \<and>
           confidence env = Some 0.5 \<and> general_guidance env = Some True"
  using gsr_success[OF assms(2-5)] not_has_data[OF assms(1)]
  by (simp add: enhanced_response_def subscript_def dict_get_def empty_dict_def)

text \<open>The theorem at the retrieval with no sources, with the model that answers.\<close>

theorem success_without_sources_witness:
  "dict_get (sources no_source_result) [] = [] \<and>
   GEMINI_READY (healthy_process no_source_result) \<and>
   model (healthy_process no_source_result) = Some healthy_model \<and>
   build_prompt str_nat sandy_soil_question no_source_result = Inr no_source_prompt \<and>
   try_generate (Some healthy_model) no_source_prompt = Inr ''I am SaarthiAI. Try groundnut.'' \<and>
   (\<exists>res env. generate_smart_response str_nat (healthy_process no_source_result)
                 sandy_soil_question no_source_result = Inr res \<and>
           confidence res = Some 0.5 \<and> general_guidance res = Some True \<and>
           enhanced_response sandy_soil_question no_source_result res = Inr env \<and>
           confidence env = Some 0.5 \<and> general_guidance env = Some True)"
proof -
  have s: "dict_get (sources no_source_result) [] = []"
    by (simp add: no_source_result_def empty_dict_def dict_get_def)
  have bp: "build_prompt str_nat sandy_soil_question no_source_result = Inr no_source_prompt"
    using build_prompt_no_source[OF s] by (simp add: no_source_prompt_def)
  show ?thesis
    using success_without_sources[OF s healthy_process_simps(2) healthy_process_simps(3) bp
        try_generate_healthy]
      s bp healthy_process_simps try_generate_healthy
    by simp
qed

subsection \<open>C6: a successful call with sources\<close>

text \<open>
  C6: whenever the enhancer call succeeds and the retrieval has sources, the helper's
  result (and the envelope the route builds from it) has the retrieval's confidence
  unchanged and the whole list of sources, although the prompt is the one of the first
  three sources alone.
\<close>

theorem success_with_sources:
  assumes "sources r = Some ss" "ss \<noteq> []" "confidence r = Some c"
    "GEMINI_READY p" "model p = Some m"
    "build_prompt str q r = Inr prompt" "try_generate (Some m) prompt = Inr text"
  shows "\<exists>res env. generate_smart_response str p q r = Inr res \<and>
           confidence res = Some c \<and> sources res = Some ss \<and>
           enhanced_response q r res = Inr env \<and>
           confidence env = Some c \<and> sources env = Some ss \<and>
           build_prompt str q (r\<lparr>sources := Some (take 3 ss)\<rparr>) = Inr prompt"
  using gsr_success[OF assms(4-7)] has_data_Some[OF assms(1,2)] assms(1,3,6)
    build_prompt_take3[OF assms(1), of str q]
  by (simp add: enhanced_response_def subscript_def dict_get_def empty_dict_def)

text \<open>The theorem at a retrieval with five sources: all five come back.\<close>

theorem success_with_sources_witness:
  "sources five_source_result =
     Some [crop_source, soil_source, crop_source, soil_source, crop_source] \<and>
   confidence five_source_result = Some 0.82 \<and>
   GEMINI_READY (healthy_process five_source_result) \<and>
   model (healthy_process five_source_result) = Some healthy_model \<and>
   build_prompt str_nat sandy_soil_question five_source_result = Inr five_source_prompt \<and>
   try_generate (Some healthy_model) five_source_prompt = Inr ''I am SaarthiAI. Try groundnut.'' \<and>
   (\<exists>res env. generate_smart_response str_nat (healthy_process five_source_result)
                 sandy_soil_question five_source_result = Inr res \<and>
       confidence res = Some 0.82 \<and>
       sources res = Some [crop_source, soil_source, crop_source, soil_source, crop_source] \<and>
       enhanced_response sandy_soil_question five_source_result res = Inr env \<and>
       confidence env = Some 0.82 \<and>
       sources env = Some [crop_source, soil_source, crop_source, soil_source, crop_source] \<and>
       build_prompt str_nat sandy_soil_question
         (five_source_result\<lparr>sources := Some [crop_source, soil_source, crop_source]\<rparr>) =
         Inr five_source_prompt)"
proof -
  have f: "sources five_source_result =
      Some [crop_source, soil_source, crop_source, soil_source, crop_source]"
    "confidence five_source_result = Some 0.82"
    by (simp_all add: five_source_result_def empty_dict_def)
  have n: "[crop_source, soil_source, crop_source, soil_source, crop_source] \<noteq> []" by simp
  show ?thesis
    using success_with_sources[OF f(1) n f(2) healthy_process_simps(2)
        healthy_process_simps(3) build_prompt_five_source try_generate_healthy]
      f healthy_process_simps build_prompt_five_source try_generate_healthy
    by simp
qed

subsection \<open>C7: the prompt\<close>

text \<open>
  C7: for every question and every retrieval result whose first three sources are well
  formed, the prompt is the fixed persona text, the question as it is, the heading of the
  retrieved data, then the rendering of at most the first three sources, numbered from
  1 (each with its dataset, chunk, details when present, and relevance), or the note
  that no dataset matched when there are no sources, and last the fixed instructions.
\<close>

theorem prompt_structure:
  assumes "list_all well_formed_source (take 3 (dict_get (sources r) []))"
  shows "build_prompt str q r =
     Inr (context_head @ q @ context_tail @
          (if dict_get (sources r) [] = [] then no_match_note
           else concat (map (\<lambda>(i, s). rendered_source str i s)
                  (List.enumerate 1 (take 3 (dict_get (sources r) []))))) @
          prompt_tail)"
  by (simp add: build_prompt_def build_context_well_formed[OF assms])

text \<open>The theorem at a retrieval with five sources: three are rendered.\<close>

theorem prompt_structure_witness:
  "list_all well_formed_source (take 3 (dict_get (sources five_source_result) [])) \<and>
   build_prompt str_nat sandy_soil_question five_source_result =
     Inr (context_head @ sandy_soil_question @ context_tail @
          rendered_source str_nat 1 crop_source @
          rendered_source str_nat 2 soil_source @
          rendered_source str_nat 3 crop_source @
          prompt_tail) \<and>
   rendered_source str_nat 2 soil_source =
     ''\<newline>Source 2:\<newline>'' @
     ''Dataset: soil_health\<newline>'' @
     ''Information: Sandy soil drains quickly\<newline>'' @
     ''Details: pH 6.5\<newline>'' @
     ''Relevance: 74\<newline>''"
proof -
  have s: "dict_get (sources five_source_result) [] =
      [crop_source, soil_source, crop_source, soil_source, crop_source]"
    by (simp add: five_source_result_def empty_dict_def dict_get_def)
  have w: "list_all well_formed_source (take 3 (dict_get (sources five_source_result) []))"
    by (simp add: s well_formed_source_def crop_source_def soil_source_def)
  have r: "rendered_source str_nat 2 soil_source =
     ''\<newline>Source 2:\<newline>'' @
     ''Dataset: soil_health\<newline>'' @
     ''Information: Sandy soil drains quickly\<newline>'' @
     ''Details: pH 6.5\<newline>'' @
     ''Relevance: 74\<newline>''"
    by (simp add: rendered_source_def soil_source_def dict_get_def str_nat_2 str_nat_74)
  show ?thesis
    using prompt_structure[OF w, of str_nat sandy_soil_question] w r
    by (simp add: s enumerate_simps eval_nat_numeral)
qed

subsection \<open>C8: the confidence stays in the unit interval\<close>

text \<open>
  C8: if the retrieval's confidence lies in [0,1], then every result that
  \<open>generate_smart_response\<close> returns (success or fallback) and every envelope that the
  route sends (direct path, enhanced path, or either fallback) has a confidence in [0,1].
\<close>

theorem confidence_in_unit_interval:
  assumes "confidence r = Some c0" "0 \<le> c0" "c0 \<le> 1"
    "init_qa_system p s = (Inr qa, s')" "question data = Some q"
    "answer_question qa q (dict_get (top_k data) 10) = Inr r"
  shows "(\<forall>res. generate_smart_response str p q r = Inr res \<longrightarrow>
            (\<exists>c. confidence res = Some c \<and> 0 \<le> c \<and> c \<le> 1)) \<and>
         (\<forall>d status s''. query str p s (Some data) = ((Envelope d, status), s'') \<longrightarrow>
            (\<exists>c. confidence d = Some c \<and> 0 \<le> c \<and> c \<le> 1))"
proof -
  have g: "\<exists>c. confidence res = Some c \<and> 0 \<le> c \<and> c \<le> 1"
    if "generate_smart_response str p q r = Inr res" for res
    using gsr_confidence[OF that] assms(1-3) by simp
  have "\<exists>c. confidence d = Some c \<and> 0 \<le> c \<and> c \<le> 1"
    if "query str p s (Some data) = ((Envelope d, status), s'')" for d status s''
    using query_envelope_confidence[OF assms(4-6) that] g assms(1-3) by auto
  with g show ?thesis by blast
qed

text \<open>The theorem on the enhanced path, at the two-source retrieval.\<close>

theorem confidence_in_unit_interval_witness:
  "confidence two_source_result = Some 0.82 \<and> (0::real) \<le> 0.82 \<and> (0.82::real) \<le> 1 \<and>
   init_qa_system (healthy_process two_source_result) None =
     (Inr (retriever_of two_source_result), Some (retriever_of two_source_result)) \<and>
   question sandy_soil_request = Some sandy_soil_question \<and>
   answer_question (retriever_of two_source_result) sandy_soil_question
     (dict_get (top_k sandy_soil_request) 10) = Inr two_source_result \<and>
   (\<exists>res. generate_smart_response str_nat (healthy_process two_source_result)
            sandy_soil_question two_source_result = Inr res \<and>
        (\<exists>c. confidence res = Some c \<and> 0 \<le> c \<and> c \<le> 1)) \<and>
   (\<exists>d. query str_nat (healthy_process two_source_result) None (Some sandy_soil_request) =
          ((Envelope d, 200), Some (retriever_of two_source_result)) \<and>
        ai_enhanced d = Some True \<and>
        (\<exists>c. confidence d = Some c \<and> 0 \<le> c \<and> c \<le> 1))"
proof -
  have i: "init_qa_system (healthy_process two_source_result) None =
      (Inr (retriever_of two_source_result), Some (retriever_of two_source_result))"
    by (rule init_qa_system_fresh) (rule healthy_process_simps)
  have b: "(0::real) \<le> 0.82" "(0.82::real) \<le> 1" by simp_all
  show ?thesis
    using confidence_in_unit_interval[OF two_source_result_simps(2) b i
        sandy_soil_request_simps(1) answer_question_retriever_of, where str = str_nat]
      query_two_source_healthy gsr_two_source_healthy i two_source_result_simps(2)
      sandy_soil_request_simps(1) answer_question_retriever_of[of two_source_result]
    by simp
qed

subsection \<open>C9: what the route reports when the enhancer call fails\<close>

text \<open>
  C9 says that a failure of the enhancer call at request time gives status 200 and is
  reported by the \<^verbatim>\<open>fallback\<close> flag and \<open>ai_enhanced = False\<close> in the body. The
  status is 200 (\<open>query_status_200\<close>), but the body has no \<^verbatim>\<open>fallback\<close> key: the
  helper returns \<open>fallback = True\<close> (line 117) and the route copies the answer, the
  confidence, the sources, \<^verbatim>\<open>ai_enhanced\<close> and \<^verbatim>\<open>general_guidance\<close> of the helper's
  result (lines 108 to 116), never \<^verbatim>\<open>fallback\<close>. The route's own handler (line 125)
  does set the key. The code at a request whose enhancer call raises:
\<close>

theorem call_failure_response_has_no_fallback_key:
  "generate_smart_response str_nat (failing_process two_source_result) sandy_soil_question
       two_source_result =
     Inr \<lparr>question = None, top_k = None, use_gemini = None,
          answer = Some ''Groundnut and millet suit sandy soil.'', confidence = Some 0.82,
          sources = Some [crop_source, soil_source], search_results_count = None,
          num_results = None, ai_enhanced = Some False, general_guidance = None,
          fallback = Some True\<rparr> \<and>
   query str_nat (failing_process two_source_result) None (Some sandy_soil_request) =
     ((Envelope
        \<lparr>question = Some sandy_soil_question, top_k = None, use_gemini = None,
         answer = Some ''Groundnut and millet suit sandy soil.'', confidence = Some 0.82,
         sources = Some [crop_source, soil_source], search_results_count = None,
         num_results = Some 2, ai_enhanced = Some False, general_guidance = Some False,
         fallback = None\<rparr>, 200),
      Some (retriever_of two_source_result))"
  using gsr_two_source_failing query_two_source_failing by simp

text \<open>
  The flags read off the two values: the helper's result has the \<^verbatim>\<open>fallback\<close> flag,
  the body sent with status 200 has not.
\<close>

theorem call_failure_response_has_no_fallback_key_witness:
  "(case generate_smart_response str_nat (failing_process two_source_result)
           sandy_soil_question two_source_result of
      Inl e \<Rightarrow> False
    | Inr res \<Rightarrow> ai_enhanced res = Some False \<and> fallback res = Some True) \<and>
   (case query str_nat (failing_process two_source_result) None (Some sandy_soil_request) of
      ((Envelope d, status), s') \<Rightarrow>
        status = 200 \<and> ai_enhanced d = Some False \<and> fallback d = None
    | ((Error msg, status), s') \<Rightarrow> False)"
  using call_failure_response_has_no_fallback_key by simp

subsection \<open>C10: the guard of the helper\<close>

text \<open>
  C10: when \<open>GEMINI_READY\<close> is false or the model is \<open>None\<close>,
  \<open>generate_smart_response\<close> raises \<^verbatim>\<open>Exception("Gemini not available")\<close> for every
  question and retrieval result, also for one whose prompt cannot be built; and a result
  with \<open>fallback = True\<close> is returned only when the flag is true, the model is there, the
  prompt was built and the call or the handling of its result raised.
\<close>

theorem not_ready_raises_before_prompt:
  "(\<not> GEMINI_READY p \<or> model p = None \<longrightarrow>
      generate_smart_response str p q r = Inl (Exception ''Gemini not available'')) \<and>
   (\<forall>res. generate_smart_response str p q r = Inr res \<and> fallback res = Some True \<longrightarrow>
      GEMINI_READY p \<and>
      (\<exists>m prompt e. model p = Some m \<and> build_prompt str q r = Inr prompt \<and>
         try_generate (Some m) prompt = Inl e))"
proof -
  have "GEMINI_READY p \<and>
      (\<exists>m prompt e. model p = Some m \<and> build_prompt str q r = Inr prompt \<and>
         try_generate (Some m) prompt = Inl e)"
    if "generate_smart_response str p q r = Inr res" "fallback res = Some True" for res
    using that
    by (auto simp: generate_smart_response_def Let_def empty_dict_def
        split: if_splits sum.splits)
  then show ?thesis using gsr_not_ready[of p str q r] by blast
qed

text \<open>
  The theorem at a retrieval whose source has no dataset: building its prompt raises
  KeyError, which a ready process shows and an uninitialised one does not; and at the
  two-source retrieval with the model whose call raises.
\<close>

theorem not_ready_raises_before_prompt_witness:
  "\<not> GEMINI_READY (uninitialised_process nameless_source_result) \<and>
   build_prompt str_nat sandy_soil_question nameless_source_result = Inl (KeyError ''dataset'') \<and>
   generate_smart_response str_nat (healthy_process nameless_source_result)
     sandy_soil_question nameless_source_result = Inl (KeyError ''dataset'') \<and>
   generate_smart_response str_nat (uninitialised_process nameless_source_result)
     sandy_soil_question nameless_source_result = Inl (Exception ''Gemini not available'') \<and>
   (\<exists>res. generate_smart_response str_nat (failing_process two_source_result)
            sandy_soil_question two_source_result = Inr res \<and> fallback res = Some True) \<and>
   GEMINI_READY (failing_process two_source_result) \<and>
   (\<exists>m prompt e. model (failing_process two_source_result) = Some m \<and>
      build_prompt str_nat sandy_soil_question two_source_result = Inr prompt \<and>
      try_generate (Some m) prompt = Inl e)"
  using not_ready_raises_before_prompt[of "uninitialised_process nameless_source_result"
      str_nat sandy_soil_question nameless_source_result]
    not_ready_raises_before_prompt[of "failing_process two_source_result"
      str_nat sandy_soil_question two_source_result]
    uninitialised_process_simps(2)[of nameless_source_result]
    build_prompt_nameless gsr_nameless_healthy gsr_two_source_failing
  by simp

end
